theory Spec2Isabelle
  imports Main "HOL-Library.Sublist"
begin

chapter \<open>The program\<close>

section \<open>Text\<close>

text \<open>
  A Python \<open>str\<close> is modelled as a \<open>string\<close>: the list of the bytes of its UTF-8
  encoding, which is also what the program writes to and reads from its backing file
  (\<open>encoding='utf-8'\<close>). The character classes below are the ASCII part of Python's
  classes: \<open>str.strip()\<close> removes the characters for which \<open>str.isspace()\<close> holds,
  \<open>\d\<close> matches a decimal digit, \<open>str.lower()\<close> maps \<open>A..Z\<close> to \<open>a..z\<close>. Bytes
  above 127 (the Cyrillic labels of the columns, for instance) belong to no class and are
  left alone by \<open>lower\<close>.
\<close>

definition nl :: char where "nl = CHR 0x0A"
definition cr :: char where "cr = CHR 0x0D"

definition isspace :: "char \<Rightarrow> bool" where
  "isspace c = (c \<in> {CHR 0x09, CHR 0x0A, CHR 0x0B, CHR 0x0C, CHR 0x0D,
                      CHR 0x1C, CHR 0x1D, CHR 0x1E, CHR 0x1F, CHR 0x20})"

definition isdigit :: "char \<Rightarrow> bool" where
  "isdigit c = (c \<in> set ''0123456789'')"

definition lower_char :: "char \<Rightarrow> char" where
  "lower_char c =
     (let n = (of_char c :: nat) in if 65 \<le> n \<and> n \<le> 90 then char_of (n + 32) else c)"

definition lower :: "string \<Rightarrow> string" where
  "lower s = map lower_char s"

text \<open>\<open>s.strip()\<close>: leading and trailing whitespace removed.\<close>

definition lstrip :: "string \<Rightarrow> string" where
  "lstrip s = dropWhile isspace s"

definition rstrip :: "string \<Rightarrow> string" where
  "rstrip s = rev (dropWhile isspace (rev s))"

definition strip :: "string \<Rightarrow> string" where
  "strip s = rstrip (lstrip s)"

text \<open>\<open>a in b\<close> on strings: \<open>a\<close> occurs in \<open>b\<close> as a contiguous run.\<close>

fun str_in :: "string \<Rightarrow> string \<Rightarrow> bool" where
  "str_in a [] = (a = [])"
| "str_in a (c # cs) = (a = take (length a) (c # cs) \<or> str_in a cs)"

text \<open>\<open>str(n)\<close> for a Python \<open>int\<close>: its decimal digits, with a sign when negative.\<close>

definition digit_char :: "nat \<Rightarrow> char" where
  "digit_char d = char_of (48 + d)"

fun str_nat :: "nat \<Rightarrow> string" where
  "str_nat n = (if n < 10 then [digit_char n] else str_nat (n div 10) @ [digit_char (n mod 10)])"

declare str_nat.simps [simp del]

definition str_int :: "int \<Rightarrow> string" where
  "str_int i = (if i < 0 then CHR ''-'' # str_nat (nat (- i)) else str_nat (nat i))"

section \<open>Validator\<close>

subsection \<open>The regular expression of \<open>validate_phone_number\<close>\<close>

text \<open>
  The pattern \<^verbatim>\<open>^\+7 \(\d{3}\) \d{3}-\d{2}-\d{2}$\<close> is a sequence of atoms, each of which
  consumes one character or none, so \<open>re.match\<close> needs no backtracking: it walks the
  pattern from position 0 of the subject. \<open>^\<close> holds at position 0; \<open>$\<close> (without
  \<open>re.MULTILINE\<close>) holds at the end of the subject and also just before a newline that
  is its last character.
\<close>

datatype re_atom = Lit char | Digit | Caret | Dollar

fun re_match_at :: "re_atom list \<Rightarrow> nat \<Rightarrow> string \<Rightarrow> bool" where
  "re_match_at [] pos s = True"
| "re_match_at (Lit c # p) pos s =
     (case s of [] \<Rightarrow> False | d # ds \<Rightarrow> d = c \<and> re_match_at p (Suc pos) ds)"
| "re_match_at (Digit # p) pos s =
     (case s of [] \<Rightarrow> False | d # ds \<Rightarrow> isdigit d \<and> re_match_at p (Suc pos) ds)"
| "re_match_at (Caret # p) pos s = (pos = 0 \<and> re_match_at p pos s)"
| "re_match_at (Dollar # p) pos s = ((s = [] \<or> s = [nl]) \<and> re_match_at p pos s)"

definition re_match :: "re_atom list \<Rightarrow> string \<Rightarrow> bool" where
  "re_match p s = re_match_at p 0 s"

definition phone_pattern :: "re_atom list" where
  "phone_pattern =
     [Caret] @ map Lit ''+7 ('' @ replicate 3 Digit @ map Lit '') '' @ replicate 3 Digit
     @ [Lit CHR ''-''] @ replicate 2 Digit @ [Lit CHR ''-''] @ replicate 2 Digit @ [Dollar]"

definition validate_phone_number :: "string \<Rightarrow> bool" where
  "validate_phone_number phone_number = re_match phone_pattern phone_number"

text \<open>
  The format as the specification words it: the literal shape \<open>+7 (DDD) DDD-DD-DD\<close> with
  \<open>D\<close> a digit, from the first character of the value to its last.
\<close>

definition phone_format :: "string \<Rightarrow> bool" where
  "phone_format s =
     (\<exists>a b c d. s = ''+7 ('' @ a @ '') '' @ b @ ''-'' @ c @ ''-'' @ d
        \<and> length a = 3 \<and> length b = 3 \<and> length c = 2 \<and> length d = 2
        \<and> list_all isdigit (a @ b @ c @ d))"

subsection \<open>\<open>validate_string_input\<close>\<close>

datatype value_error =
    EmptyField string   \<comment> \<open>\<open>ValueError(f"{field_name} ...")\<close> of \<open>validate_string_input\<close>\<close>
  | ExtraFields         \<comment> \<open>\<open>ValueError("dict contains fields not in fieldnames: ...")\<close> of \<open>csv.DictWriter\<close>\<close>

datatype exn = ValueError value_error | EOFError | AttributeError | CsvError

definition validate_string_input :: "string \<Rightarrow> string \<Rightarrow> exn + string" where
  "validate_string_input input_str field_name =
     (if strip input_str \<noteq> [] then Inr (strip input_str)
      else Inl (ValueError (EmptyField field_name)))"

section \<open>Paginator\<close>

text \<open>
  \<open>xs[start:stop]\<close> with Python's rules: a negative bound counts from the end, and both
  bounds are then clipped to \<open>0..len(xs)\<close>.
\<close>

definition slice_bound :: "nat \<Rightarrow> int \<Rightarrow> nat" where
  "slice_bound n i = (if i < 0 then nat (max (i + int n) 0) else min (nat i) n)"

definition py_slice :: "'a list \<Rightarrow> int \<Rightarrow> int \<Rightarrow> 'a list" where
  "py_slice xs start stop =
     (let s = slice_bound (length xs) start; e = slice_bound (length xs) stop
      in take (e - s) (drop s xs))"

definition page_entries :: "int \<Rightarrow> int \<Rightarrow> 'a list \<Rightarrow> 'a list" where
  "page_entries page_num entries_per_page phonebook =
     (let start_idx = (page_num - 1) * entries_per_page;
          end_idx = start_idx + entries_per_page
      in py_slice phonebook start_idx end_idx)"

section \<open>Records\<close>

text \<open>
  A record of the phone book is a Python \<open>dict\<close>. Its values are strings when they come
  from the console or from the file, an \<open>int\<close> for the \<open>ID\<close> that \<open>save_phonebook\<close>
  assigns, and \<open>None\<close> where \<open>csv.DictReader\<close> pads a short row. A row longer than the
  header leaves its surplus cells as a list under the key \<open>None\<close>: the binding
  \<open>BindRest\<close>. A \<open>dict\<close> keeps its keys in insertion order, so it is a list of bindings
  with each key at most once.
\<close>

datatype pyval = PStr string | PInt int | PNone

datatype binding = Bind string pyval | BindRest "string list"

type_synonym entry = "binding list"

fun dict_get :: "string \<Rightarrow> entry \<Rightarrow> pyval option" where
  "dict_get k [] = None"
| "dict_get k (Bind k' v # d) = (if k' = k then Some v else dict_get k d)"
| "dict_get k (BindRest xs # d) = dict_get k d"

text \<open>\<open>d[k] = v\<close>: an existing key keeps its place, a new key goes to the end.\<close>

fun dict_set :: "string \<Rightarrow> pyval \<Rightarrow> entry \<Rightarrow> entry" where
  "dict_set k v [] = [Bind k v]"
| "dict_set k v (Bind k' v' # d) = (if k' = k then Bind k v # d else Bind k' v' # dict_set k v d)"
| "dict_set k v (BindRest xs # d) = BindRest xs # dict_set k v d"

fun dict_set_rest :: "string list \<Rightarrow> entry \<Rightarrow> entry" where
  "dict_set_rest xs [] = [BindRest xs]"
| "dict_set_rest xs (Bind k' v' # d) = Bind k' v' # dict_set_rest xs d"
| "dict_set_rest xs (BindRest ys # d) = BindRest xs # d"

definition dict_put :: "entry \<Rightarrow> binding \<Rightarrow> entry" where
  "dict_put d b = (case b of Bind k v \<Rightarrow> dict_set k v d | BindRest xs \<Rightarrow> dict_set_rest xs d)"

text \<open>\<open>d.update(other)\<close>: the bindings of \<open>other\<close> are stored into \<open>d\<close> one by one.\<close>

definition dict_update :: "entry \<Rightarrow> entry \<Rightarrow> entry" where
  "dict_update d other = foldl dict_put d other"

text \<open>\<open>dict(zip(keys, vals))\<close> for string cells.\<close>

definition dict_zip :: "string list \<Rightarrow> string list \<Rightarrow> entry" where
  "dict_zip ks vs = foldl (\<lambda>d (k, v). dict_set k (PStr v) d) [] (zip ks vs)"

text \<open>The column labels, in the order of \<open>fieldnames\<close> in \<open>save_phonebook\<close>.\<close>

definition k_id :: string where "k_id = ''ID''"

definition k_last_name :: string where
  "k_last_name = [CHR 0xD0, CHR 0xA4, CHR 0xD0, CHR 0xB0, CHR 0xD0, CHR 0xBC, CHR 0xD0, CHR 0xB8,
     CHR 0xD0, CHR 0xBB, CHR 0xD0, CHR 0xB8, CHR 0xD1, CHR 0x8F]"

definition k_first_name :: string where
  "k_first_name = [CHR 0xD0, CHR 0x98, CHR 0xD0, CHR 0xBC, CHR 0xD1, CHR 0x8F]"

definition k_patronymic :: string where
  "k_patronymic = [CHR 0xD0, CHR 0x9E, CHR 0xD1, CHR 0x82, CHR 0xD1, CHR 0x87, CHR 0xD0, CHR 0xB5,
     CHR 0xD1, CHR 0x81, CHR 0xD1, CHR 0x82, CHR 0xD0, CHR 0xB2, CHR 0xD0, CHR 0xBE]"

definition k_organization :: string where
  "k_organization = [CHR 0xD0, CHR 0x9E, CHR 0xD1, CHR 0x80, CHR 0xD0, CHR 0xB3, CHR 0xD0, CHR 0xB0,
     CHR 0xD0, CHR 0xBD, CHR 0xD0, CHR 0xB8, CHR 0xD0, CHR 0xB7, CHR 0xD0, CHR 0xB0, CHR 0xD1, CHR 0x86,
     CHR 0xD0, CHR 0xB8, CHR 0xD1, CHR 0x8F]"

definition k_work_phone :: string where
  "k_work_phone = [CHR 0xD0, CHR 0xA2, CHR 0xD0, CHR 0xB5, CHR 0xD0, CHR 0xBB, CHR 0xD0, CHR 0xB5,
     CHR 0xD1, CHR 0x84, CHR 0xD0, CHR 0xBE, CHR 0xD0, CHR 0xBD, CHR 0x20, CHR 0xD1, CHR 0x80, CHR 0xD0,
     CHR 0xB0, CHR 0xD0, CHR 0xB1, CHR 0xD0, CHR 0xBE, CHR 0xD1, CHR 0x87, CHR 0xD0, CHR 0xB8, CHR 0xD0,
     CHR 0xB9]"

definition k_personal_phone :: string where
  "k_personal_phone = [CHR 0xD0, CHR 0xA2, CHR 0xD0, CHR 0xB5, CHR 0xD0, CHR 0xBB, CHR 0xD0, CHR 0xB5,
     CHR 0xD1, CHR 0x84, CHR 0xD0, CHR 0xBE, CHR 0xD0, CHR 0xBD, CHR 0x20, CHR 0xD0, CHR 0xBB, CHR 0xD0,
     CHR 0xB8, CHR 0xD1, CHR 0x87, CHR 0xD0, CHR 0xBD, CHR 0xD1, CHR 0x8B, CHR 0xD0, CHR 0xB9]"

definition text_fields :: "string list" where
  "text_fields = [k_last_name, k_first_name, k_patronymic, k_organization, k_work_phone,
     k_personal_phone]"

definition fieldnames :: "string list" where
  "fieldnames = k_id # text_fields"

section \<open>The CSV file\<close>

text \<open>
  \<open>csv.DictWriter\<close> and \<open>csv.DictReader\<close> are used with their defaults, the \<open>excel\<close>
  dialect: delimiter \<open>,\<close>, quote character \<open>"\<close> doubled inside a quoted cell, no escape
  character, line terminator \<open>\r\n\<close>, \<open>QUOTE_MINIMAL\<close>, not strict. The model follows
  the library for this dialect. It leaves out what the library does for other dialects,
  the failure of the file system, characters that UTF-8 cannot encode, and the reader's
  limit on the length of one cell (131072 characters).
\<close>

subsection \<open>Writing\<close>

definition needs_quote :: "string \<Rightarrow> bool" where
  "needs_quote s = (\<exists>c \<in> set s. c = CHR '','' \<or> c = CHR 0x22 \<or> c = cr \<or> c = nl)"

definition quote_body :: "string \<Rightarrow> string" where
  "quote_body s = concat (map (\<lambda>c. if c = CHR 0x22 then [CHR 0x22, CHR 0x22] else [c]) s)"

definition csv_cell :: "string \<Rightarrow> string" where
  "csv_cell s = (if needs_quote s then [CHR 0x22] @ quote_body s @ [CHR 0x22] else s)"

fun csv_join :: "string list \<Rightarrow> string" where
  "csv_join [] = []"
| "csv_join [x] = csv_cell x"
| "csv_join (x # y # ys) = csv_cell x @ CHR '','' # csv_join (y # ys)"

text \<open>
  \<open>writer.writerow(cells)\<close>: the text of one row. A row whose text would be empty although
  it has a cell (one empty cell) is written as a pair of quotes.
\<close>

definition csv_writerow :: "string list \<Rightarrow> string" where
  "csv_writerow cells =
     (let t = csv_join cells
      in (if cells \<noteq> [] \<and> t = [] then [CHR 0x22, CHR 0x22] else t) @ [cr, nl])"

text \<open>The text the writer puts into a cell: a string as it is, \<open>None\<close> as nothing, \<open>str(v)\<close> otherwise.\<close>

fun cell_text :: "pyval \<Rightarrow> string" where
  "cell_text (PStr s) = s"
| "cell_text (PInt i) = str_int i"
| "cell_text PNone = []"

text \<open>
  \<open>DictWriter._dict_to_list\<close> with \<open>extrasaction='raise'\<close> and \<open>restval=''\<close>: a key of
  the record that is no column raises \<open>ValueError\<close>, a column that is no key is empty.
\<close>

fun wrong_field :: "string list \<Rightarrow> binding \<Rightarrow> bool" where
  "wrong_field names (Bind k v) = (k \<notin> set names)"
| "wrong_field names (BindRest xs) = True"

definition dict_to_list :: "string list \<Rightarrow> entry \<Rightarrow> exn + pyval list" where
  "dict_to_list names rowdict =
     (if list_ex (wrong_field names) rowdict then Inl (ValueError ExtraFields)
      else Inr (map (\<lambda>k. case dict_get k rowdict of None \<Rightarrow> PStr [] | Some v \<Rightarrow> v) names))"

definition dict_writerow :: "string list \<Rightarrow> entry \<Rightarrow> exn + string" where
  "dict_writerow names rowdict =
     (case dict_to_list names rowdict of
        Inl e \<Rightarrow> Inl e
      | Inr vals \<Rightarrow> Inr (csv_writerow (map cell_text vals)))"

subsection \<open>Reading\<close>

text \<open>
  A file opened with \<open>newline=''\<close> yields its lines with their endings kept, a line
  ending at \<open>\n\<close>, at \<open>\r\n\<close> or at a \<open>\r\<close> that no \<open>\n\<close> follows. The first argument
  of \<open>lines_from\<close> is the part of the current line already seen.
\<close>

fun lines_from :: "string \<Rightarrow> string \<Rightarrow> string list" where
  "lines_from cur [] = (if cur = [] then [] else [cur])"
| "lines_from cur (c # cs) =
     (if c = nl then (cur @ [c]) # lines_from [] cs
      else if c = cr then
        (case cs of
           [] \<Rightarrow> [cur @ [c]]
         | d # ds \<Rightarrow> if d = nl then (cur @ [c, d]) # lines_from [] ds
                    else (cur @ [c]) # lines_from [] (d # ds))
      else lines_from (cur @ [c]) cs)"

declare lines_from.simps(2) [simp del]

definition file_lines :: "string \<Rightarrow> string list" where
  "file_lines text = lines_from [] text"

text \<open>
  The parser of \<open>csv.reader\<close>: the states of the library that the dialect can reach, the
  cells of the record so far, and the cell being read.
\<close>

datatype parse_state =
  START_RECORD | START_FIELD | IN_FIELD | IN_QUOTED_FIELD | QUOTE_IN_QUOTED_FIELD | EAT_CRNL

record parser =
  p_state :: parse_state
  p_fields :: "string list"
  p_field :: string

definition parse_reset :: parser where
  "parse_reset = \<lparr>p_state = START_RECORD, p_fields = [], p_field = []\<rparr>"

definition parse_save_field :: "parser \<Rightarrow> parser" where
  "parse_save_field p = p\<lparr>p_fields := p_fields p @ [p_field p], p_field := []\<rparr>"

definition parse_add_char :: "char \<Rightarrow> parser \<Rightarrow> parser" where
  "parse_add_char c p = p\<lparr>p_field := p_field p @ [c]\<rparr>"

definition is_eol :: "char option \<Rightarrow> bool" where
  "is_eol c = (c = None \<or> c = Some nl \<or> c = Some cr)"

definition after_line :: "char option \<Rightarrow> parse_state" where
  "after_line c = (if c = None then START_RECORD else EAT_CRNL)"

text \<open>One step of the parser; \<open>None\<close> is the end-of-line mark fed after each line.\<close>

definition start_field :: "parser \<Rightarrow> char option \<Rightarrow> exn + parser" where
  "start_field p c =
     (if is_eol c then Inr ((parse_save_field p)\<lparr>p_state := after_line c\<rparr>)
      else if c = Some (CHR 0x22) then Inr (p\<lparr>p_state := IN_QUOTED_FIELD\<rparr>)
      else if c = Some (CHR '','') then Inr (parse_save_field p)
      else Inr ((parse_add_char (the c) p)\<lparr>p_state := IN_FIELD\<rparr>))"

definition parse_process_char :: "parser \<Rightarrow> char option \<Rightarrow> exn + parser" where
  "parse_process_char p c =
     (case p_state p of
        START_RECORD \<Rightarrow>
          if c = None then Inr p
          else if c = Some nl \<or> c = Some cr then Inr (p\<lparr>p_state := EAT_CRNL\<rparr>)
          else start_field (p\<lparr>p_state := START_FIELD\<rparr>) c
      | START_FIELD \<Rightarrow> start_field p c
      | IN_FIELD \<Rightarrow>
          if is_eol c then Inr ((parse_save_field p)\<lparr>p_state := after_line c\<rparr>)
          else if c = Some (CHR '','') then Inr ((parse_save_field p)\<lparr>p_state := START_FIELD\<rparr>)
          else Inr (parse_add_char (the c) p)
      | IN_QUOTED_FIELD \<Rightarrow>
          if c = None then Inr p
          else if c = Some (CHR 0x22) then Inr (p\<lparr>p_state := QUOTE_IN_QUOTED_FIELD\<rparr>)
          else Inr (parse_add_char (the c) p)
      | QUOTE_IN_QUOTED_FIELD \<Rightarrow>
          if c = Some (CHR 0x22) then Inr ((parse_add_char (CHR 0x22) p)\<lparr>p_state := IN_QUOTED_FIELD\<rparr>)
          else if c = Some (CHR '','') then Inr ((parse_save_field p)\<lparr>p_state := START_FIELD\<rparr>)
          else if is_eol c then Inr ((parse_save_field p)\<lparr>p_state := after_line c\<rparr>)
          else Inr ((parse_add_char (the c) p)\<lparr>p_state := IN_FIELD\<rparr>)
      | EAT_CRNL \<Rightarrow>
          if c = Some nl \<or> c = Some cr then Inr p
          else if c = None then Inr (p\<lparr>p_state := START_RECORD\<rparr>)
          else Inl CsvError)"

text \<open>The characters of one line, then the end-of-line mark.\<close>

fun parse_chars :: "parser \<Rightarrow> string \<Rightarrow> exn + parser" where
  "parse_chars p [] = Inr p"
| "parse_chars p (c # cs) =
     (case parse_process_char p (Some c) of Inl e \<Rightarrow> Inl e | Inr p' \<Rightarrow> parse_chars p' cs)"

definition parse_line :: "parser \<Rightarrow> string \<Rightarrow> exn + parser" where
  "parse_line p l =
     (case parse_chars p l of Inl e \<Rightarrow> Inl e | Inr p' \<Rightarrow> parse_process_char p' None)"

text \<open>
  \<open>csv.reader\<close> over the lines of the file: a record is complete when the parser is back
  in \<open>START_RECORD\<close> after a line; at the end of the input a record left open inside a
  quoted cell, or with a cell begun, is returned as it stands. All the rows are collected:
  \<open>load_phonebook\<close> keeps nothing of a file whose reading raises.
\<close>

fun csv_reader :: "parser \<Rightarrow> string list \<Rightarrow> exn + string list list" where
  "csv_reader p [] =
     (if p_field p \<noteq> [] \<or> p_state p = IN_QUOTED_FIELD then Inr [p_fields (parse_save_field p)]
      else Inr [])"
| "csv_reader p (l # ls) =
     (case parse_line p l of
        Inl e \<Rightarrow> Inl e
      | Inr p' \<Rightarrow>
          if p_state p' = START_RECORD then
            (case csv_reader parse_reset ls of
               Inl e \<Rightarrow> Inl e
             | Inr rows \<Rightarrow> Inr (p_fields p' # rows))
          else csv_reader p' ls)"

text \<open>
  \<open>csv.DictReader\<close> with \<open>restkey=None\<close> and \<open>restval=None\<close>: the first row names the
  columns, an empty row after it is skipped, a long row keeps its surplus under the key
  \<open>None\<close>, a short row is padded with \<open>None\<close>.
\<close>

definition dict_row :: "string list \<Rightarrow> string list \<Rightarrow> entry" where
  "dict_row names row =
     (let d = dict_zip names row; lf = length names; lr = length row
      in if lf < lr then dict_set_rest (drop lf row) d
         else if lf > lr then foldl (\<lambda>d k. dict_set k PNone d) d (drop lr names)
         else d)"

definition dict_reader :: "string list list \<Rightarrow> entry list" where
  "dict_reader rows =
     (case rows of
        [] \<Rightarrow> []
      | names # rest \<Rightarrow> map (dict_row names) (filter (\<lambda>row. row \<noteq> []) rest))"

section \<open>The program state\<close>

text \<open>
  What the operations read and change: the one list of records that \<open>main\<close> creates and
  hands to every operation (they change it in place), the backing file \<open>phonebook.csv\<close>
  (\<open>None\<close> while it does not exist), the lines that the console will still deliver to
  \<open>input()\<close>, and what has been printed. Prompts are not recorded. An operation returns
  the new state together with its result, \<open>Inl\<close> for an exception that leaves it. The
  menu loop of \<open>main\<close> only reads a choice and calls one of the operations below.
\<close>

datatype out =
    OutEntry entry          \<comment> \<open>\<open>print(entry)\<close>\<close>
  | OutError value_error    \<comment> \<open>the message of a caught \<open>ValueError\<close>\<close>
  | OutBadPhone             \<comment> \<open>the phone number has the wrong format\<close>
  | OutAdded                \<comment> \<open>the record was added\<close>
  | OutCurrent              \<comment> \<open>heading of the record about to be edited\<close>
  | OutEdited               \<comment> \<open>the record was edited\<close>
  | OutBadIndex             \<comment> \<open>there is no record with this index\<close>
  | OutEmptySearch          \<comment> \<open>the search text is blank\<close>
  | OutResults              \<comment> \<open>heading of the search results\<close>
  | OutNotFound             \<comment> \<open>nothing was found\<close>

record world =
  phonebook :: "entry list"
  csv_file :: "string option"
  inputs :: "string list"
  printed :: "out list"

type_synonym 'a io = "world \<Rightarrow> world \<times> (exn + 'a)"

definition return :: "'a \<Rightarrow> 'a io" where
  "return x w = (w, Inr x)"

definition lift :: "exn + 'a \<Rightarrow> 'a io" where
  "lift r w = (w, r)"

definition bind :: "'a io \<Rightarrow> ('a \<Rightarrow> 'b io) \<Rightarrow> 'b io" where
  "bind m f w = (case m w of (w', Inl e) \<Rightarrow> (w', Inl e) | (w', Inr x) \<Rightarrow> f x w')"

definition print :: "out \<Rightarrow> world \<Rightarrow> world" where
  "print x w = w\<lparr>printed := printed w @ [x]\<rparr>"

definition say :: "out \<Rightarrow> unit io" where
  "say x w = (print x w, Inr ())"

text \<open>\<open>input()\<close>: the next line of the console, \<open>EOFError\<close> when there is none.\<close>

definition input :: "string io" where
  "input w = (case inputs w of [] \<Rightarrow> (w, Inl EOFError) | x # xs \<Rightarrow> (w\<lparr>inputs := xs\<rparr>, Inr x))"

section \<open>RecordStore\<close>

subsection \<open>\<open>load_phonebook\<close>\<close>

definition load_phonebook :: "entry list io" where
  "load_phonebook w =
     (case csv_file w of
        None \<Rightarrow> (w, Inr [])
      | Some text \<Rightarrow>
          (case csv_reader parse_reset (file_lines text) of
             Inl e \<Rightarrow> (w, Inl e)
           | Inr rows \<Rightarrow> (w, Inr (dict_reader rows))))"

subsection \<open>\<open>save_phonebook\<close>\<close>

text \<open>
  The loop of \<open>save_phonebook\<close> from position \<open>idx\<close>: the records as the loop leaves
  them, the text written, and how the loop ended. A record that \<open>writerow\<close> refuses has
  its \<open>ID\<close> assigned already; the records after it are not reached.
\<close>

fun save_rows :: "int \<Rightarrow> entry list \<Rightarrow> entry list \<times> string \<times> (exn + unit)" where
  "save_rows idx [] = ([], [], Inr ())"
| "save_rows idx (entry # rest) =
     (let entry' = dict_set k_id (PInt idx) entry
      in case dict_writerow fieldnames entry' of
           Inl e \<Rightarrow> (entry' # rest, [], Inl e)
         | Inr line \<Rightarrow>
             (case save_rows (idx + 1) rest of
                (rest', text, r) \<Rightarrow> (entry' # rest', line @ text, r)))"

text \<open>
  Opening the file for writing empties it; the header goes first; leaving the \<open>with\<close>
  block closes the file with what was written, also when \<open>writerow\<close> raised.
\<close>

definition save_phonebook :: "unit io" where
  "save_phonebook w =
     (case save_rows 1 (phonebook w) of
        (pb', text, r) \<Rightarrow>
          (w\<lparr>phonebook := pb', csv_file := Some (csv_writerow fieldnames @ text)\<rparr>, r))"

subsection \<open>\<open>input_contact_data\<close>\<close>

text \<open>The \<open>while True\<close> loop that asks for a phone number until one has the format.\<close>

fun phone_loop :: "string list \<Rightarrow> world \<Rightarrow> world \<times> (exn + string)" where
  "phone_loop [] w = (w\<lparr>inputs := []\<rparr>, Inl EOFError)"
| "phone_loop (x # xs) w =
     (if validate_phone_number x then (w\<lparr>inputs := xs\<rparr>, Inr x)
      else phone_loop xs (print OutBadPhone (w\<lparr>inputs := xs\<rparr>)))"

definition input_phone :: "string io" where
  "input_phone w = phone_loop (inputs w) w"

definition input_text :: "string \<Rightarrow> string io" where
  "input_text field_name = bind input (\<lambda>s. lift (validate_string_input s field_name))"

text \<open>The body of the \<open>try\<close> block, then the block with its \<open>except ValueError\<close>.\<close>

definition contact_body :: "entry io" where
  "contact_body =
     bind (input_text k_last_name) (\<lambda>last_name.
     bind (input_text k_first_name) (\<lambda>first_name.
     bind (input_text k_patronymic) (\<lambda>patronymic.
     bind (input_text k_organization) (\<lambda>organization.
     bind input_phone (\<lambda>work_phone.
     bind input_phone (\<lambda>personal_phone.
     return [Bind k_last_name (PStr last_name), Bind k_first_name (PStr first_name),
             Bind k_patronymic (PStr patronymic), Bind k_organization (PStr organization),
             Bind k_work_phone (PStr work_phone), Bind k_personal_phone (PStr personal_phone)]))))))"

definition input_contact_data :: "entry io" where
  "input_contact_data w =
     (case contact_body w of
        (w', Inl (ValueError e)) \<Rightarrow> (print (OutError e) w', Inr [])
      | r \<Rightarrow> r)"

subsection \<open>\<open>add_entry\<close>\<close>

text \<open>Lines 138 to 140: what \<open>add_entry\<close> does with a non-empty \<open>contact_data\<close>.\<close>

definition add_record :: "entry \<Rightarrow> unit io" where
  "add_record contact_data w =
     bind save_phonebook (\<lambda>_. say OutAdded) (w\<lparr>phonebook := phonebook w @ [contact_data]\<rparr>)"

definition add_entry :: "unit io" where
  "add_entry =
     bind input_contact_data (\<lambda>contact_data.
       if contact_data \<noteq> [] then add_record contact_data else return ())"

subsection \<open>\<open>edit_entry\<close>\<close>

text \<open>
  Lines 162 to 164: what \<open>edit_entry\<close> does with a non-empty \<open>contact_data\<close>. It is
  reached only with \<open>i\<close> inside the list.
\<close>

definition edit_record :: "nat \<Rightarrow> entry \<Rightarrow> unit io" where
  "edit_record i contact_data w =
     bind save_phonebook (\<lambda>_. say OutEdited)
       (w\<lparr>phonebook := (phonebook w)[i := dict_update (phonebook w ! i) contact_data]\<rparr>)"

text \<open>
  Lines 155 to 166 with the source of \<open>contact_data\<close> as a parameter, so that the merge
  can be stated for any overrides; \<open>edit_entry\<close> passes \<open>input_contact_data\<close>.
\<close>

definition edit_body :: "entry io \<Rightarrow> int \<Rightarrow> unit io" where
  "edit_body get_contact entry_idx w =
     (let i = entry_idx - 1
      in if 0 \<le> i \<and> i < int (length (phonebook w)) then
           bind (say OutCurrent) (\<lambda>_.
           bind (say (OutEntry (phonebook w ! nat i))) (\<lambda>_.
           bind get_contact (\<lambda>contact_data.
             if contact_data \<noteq> [] then edit_record (nat i) contact_data else return ()))) w
         else say OutBadIndex w)"

definition catch_value_error :: "unit io \<Rightarrow> unit io" where
  "catch_value_error m w =
     (case m w of
        (w', Inl (ValueError e)) \<Rightarrow> (print (OutError e) w', Inr ())
      | r \<Rightarrow> r)"

definition edit_with :: "entry io \<Rightarrow> int \<Rightarrow> unit io" where
  "edit_with get_contact entry_idx = catch_value_error (edit_body get_contact entry_idx)"

definition edit_entry :: "int \<Rightarrow> unit io" where
  "edit_entry entry_idx = edit_with input_contact_data entry_idx"

section \<open>Paginator and SearchEngine on the state\<close>

definition display_page :: "int \<Rightarrow> int \<Rightarrow> unit io" where
  "display_page page_num entries_per_page w =
     (w\<lparr>printed := printed w @ map OutEntry (page_entries page_num entries_per_page (phonebook w))\<rparr>,
      Inr ())"

text \<open>The \<open>while True\<close> loop that asks for the search text until it is not blank.\<close>

fun search_prompt :: "string list \<Rightarrow> world \<Rightarrow> world \<times> (exn + string)" where
  "search_prompt [] w = (w\<lparr>inputs := []\<rparr>, Inl EOFError)"
| "search_prompt (x # xs) w =
     (let search_term = lower x
      in if strip search_term = [] then search_prompt xs (print OutEmptySearch (w\<lparr>inputs := xs\<rparr>))
         else (w\<lparr>inputs := xs\<rparr>, Inr search_term))"

text \<open>\<open>value.lower()\<close>: only a string has the method.\<close>

fun value_lower :: "binding \<Rightarrow> exn + string" where
  "value_lower (Bind k (PStr s)) = Inr (lower s)"
| "value_lower (Bind k (PInt i)) = Inl AttributeError"
| "value_lower (Bind k PNone) = Inl AttributeError"
| "value_lower (BindRest xs) = Inl AttributeError"

text \<open>\<open>any(search_term in value.lower() for value in entry.values())\<close>: stops at the first hit.\<close>

fun any_match :: "string \<Rightarrow> entry \<Rightarrow> exn + bool" where
  "any_match search_term [] = Inr False"
| "any_match search_term (b # bs) =
     (case value_lower b of
        Inl e \<Rightarrow> Inl e
      | Inr v \<Rightarrow> if str_in search_term v then Inr True else any_match search_term bs)"

fun search_results :: "string \<Rightarrow> entry list \<Rightarrow> exn + entry list" where
  "search_results search_term [] = Inr []"
| "search_results search_term (entry # rest) =
     (case any_match search_term entry of
        Inl e \<Rightarrow> Inl e
      | Inr hit \<Rightarrow>
          (case search_results search_term rest of
             Inl e \<Rightarrow> Inl e
           | Inr results \<Rightarrow> Inr (if hit then entry # results else results)))"

definition show_results :: "entry list \<Rightarrow> unit io" where
  "show_results results w =
     (if results \<noteq> [] then (w\<lparr>printed := printed w @ OutResults # map OutEntry results\<rparr>, Inr ())
      else say OutNotFound w)"

definition search_entries :: "unit io" where
  "search_entries =
     bind (\<lambda>w. search_prompt (inputs w) w) (\<lambda>search_term w.
       bind (lift (search_results search_term (phonebook w))) show_results w)"

section \<open>Notions of the specification\<close>

text \<open>
  \<open>trim\<close> in the specification's words: \<open>t\<close> is \<open>s\<close> without the whitespace at its two
  ends.
\<close>

definition is_trim_of :: "string \<Rightarrow> string \<Rightarrow> bool" where
  "is_trim_of t s =
     (\<exists>a b. s = a @ t @ b \<and> (\<forall>c \<in> set a. isspace c) \<and> (\<forall>c \<in> set b. isspace c)
        \<and> (t \<noteq> [] \<longrightarrow> \<not> isspace (hd t) \<and> \<not> isspace (last t)))"

text \<open>
  A record of the data model has no field beyond the seven columns (\<open>savable\<close>: this is
  what \<open>csv.DictWriter\<close> accepts), and it is valid when its four names are strings that
  are not blank and its two phone numbers are strings of the format. Its \<open>ID\<close> is not
  constrained: \<open>save_phonebook\<close> assigns it.
\<close>

definition savable :: "entry \<Rightarrow> bool" where
  "savable e = (\<not> list_ex (wrong_field fieldnames) e)"

fun is_text :: "pyval option \<Rightarrow> bool" where
  "is_text (Some (PStr s)) = (strip s \<noteq> [])"
| "is_text _ = False"





text \<open>
  The identity that \<open>save_phonebook\<close> gives: the records with \<open>ID\<close> set to their positions,
  counted from \<open>idx\<close>.
\<close>

fun assign_ids :: "int \<Rightarrow> entry list \<Rightarrow> entry list" where
  "assign_ids idx [] = []"
| "assign_ids idx (e # es) = dict_set k_id (PInt idx) e # assign_ids (idx + 1) es"

text \<open>The cells of the row written for a record, and the text of the rows of a collection.\<close>

definition row_cells :: "entry \<Rightarrow> string list" where
  "row_cells e = map (\<lambda>k. case dict_get k e of None \<Rightarrow> [] | Some v \<Rightarrow> cell_text v) fieldnames"

definition rows_text :: "entry list \<Rightarrow> string" where
  "rows_text es = concat (map (\<lambda>e. csv_writerow (row_cells e)) es)"

text \<open>
  The search of the specification: a record is a hit when the lowercased term occurs in
  the lowercased value of one of its fields. \<open>text_binding\<close> holds for a field whose
  value is a string.
\<close>

fun text_binding :: "binding \<Rightarrow> bool" where
  "text_binding (Bind k (PStr s)) = True"
| "text_binding b = False"

fun field_hit :: "string \<Rightarrow> binding \<Rightarrow> bool" where
  "field_hit search_term (Bind k (PStr s)) = sublist search_term (lower s)"
| "field_hit search_term b = False"

definition record_hit :: "string \<Rightarrow> entry \<Rightarrow> bool" where
  "record_hit search_term e = list_ex (field_hit search_term) e"

text \<open>An operation that leaves the records and the file as they are.\<close>

definition keeps_store :: "'a io \<Rightarrow> bool" where
  "keeps_store m = (\<forall>w. phonebook (fst (m w)) = phonebook w \<and> csv_file (fst (m w)) = csv_file w)"

section \<open>Example data\<close>

definition ex_contact :: "string \<Rightarrow> entry" where
  "ex_contact last_name =
     [Bind k_last_name (PStr last_name), Bind k_first_name (PStr ''Ivan''),
      Bind k_patronymic (PStr ''Ivanovich''), Bind k_organization (PStr ''Ivanov LLC''),
      Bind k_work_phone (PStr ''+7 (123) 456-78-90''),
      Bind k_personal_phone (PStr ''+7 (987) 654-32-10'')]"

text \<open>A record as \<open>load_phonebook\<close> returns it: the \<open>ID\<close> first, and a string.\<close>

definition ex_loaded :: "string \<Rightarrow> string \<Rightarrow> entry" where
  "ex_loaded ident last_name = Bind k_id (PStr ident) # ex_contact last_name"

definition ex_world :: "entry list \<Rightarrow> string list \<Rightarrow> world" where
  "ex_world pb lines = \<lparr>phonebook = pb, csv_file = None, inputs = lines, printed = []\<rparr>"

text \<open>The six answers that make \<open>input_contact_data\<close> return \<open>ex_contact\<close>.\<close>

definition ex_answers :: "string \<Rightarrow> string list" where
  "ex_answers last_name =
     [last_name, ''Ivan'', ''Ivanovich'', ''Ivanov LLC'', ''+7 (123) 456-78-90'',
      ''+7 (987) 654-32-10'']"

chapter \<open>Properties\<close>

section \<open>Validator\<close>

subsection \<open>Trimming\<close>

lemma strip_Nil_iff: "strip s = [] \<longleftrightarrow> (\<forall>c \<in> set s. isspace c)"
proof
  assume "strip s = []"
  then have a: "\<forall>c \<in> set (dropWhile isspace s). isspace c"
    by (simp add: strip_def rstrip_def lstrip_def dropWhile_eq_Nil_conv)
  show "\<forall>c \<in> set s. isspace c"
  proof (cases "dropWhile isspace s")
    case Nil
    then show ?thesis by (simp add: dropWhile_eq_Nil_conv)
  next
    case (Cons x xs)
    then have "\<not> isspace x" by (metis hd_dropWhile list.sel(1) list.distinct(1))
    with a Cons show ?thesis by simp
  qed
next
  assume "\<forall>c \<in> set s. isspace c"
  then show "strip s = []"
    by (auto simp: strip_def rstrip_def lstrip_def dropWhile_eq_Nil_conv dest: set_dropWhileD)
qed

lemma rstrip_split: "\<exists>b. t = rstrip t @ b \<and> (\<forall>c \<in> set b. isspace c)"
proof -
  have "rev t = takeWhile isspace (rev t) @ dropWhile isspace (rev t)" by simp
  then have "t = rev (dropWhile isspace (rev t)) @ rev (takeWhile isspace (rev t))"
    by (metis rev_append rev_rev_ident)
  moreover have "\<forall>c \<in> set (rev (takeWhile isspace (rev t))). isspace c"
    by (auto dest: set_takeWhileD)
  ultimately show ?thesis unfolding rstrip_def by blast
qed

lemma rstrip_last: "rstrip t \<noteq> [] \<Longrightarrow> \<not> isspace (last (rstrip t))"
  unfolding rstrip_def by (metis hd_dropWhile last_rev rev_is_Nil_conv)

lemma rstrip_hd: "t \<noteq> [] \<Longrightarrow> \<not> isspace (hd t) \<Longrightarrow> hd (rstrip t) = hd t \<and> rstrip t \<noteq> []"
proof -
  assume a: "t \<noteq> []" "\<not> isspace (hd t)"
  obtain b where b: "t = rstrip t @ b" "\<forall>c \<in> set b. isspace c" using rstrip_split by blast
  have "rstrip t \<noteq> []"
  proof
    assume "rstrip t = []"
    with b have "t = b" by simp
    with a b(2) show False by (metis hd_in_set)
  qed
  moreover from this b(1) have "hd t = hd (rstrip t)" by (metis hd_append2)
  ultimately show ?thesis by simp
qed

lemma strip_is_trim: "is_trim_of (strip s) s"
proof -
  let ?l = "lstrip s"
  have s: "s = takeWhile isspace s @ ?l" by (simp add: lstrip_def)
  obtain b where b: "?l = strip s @ b" "\<forall>c \<in> set b. isspace c"
    using rstrip_split [of ?l] by (auto simp: strip_def)
  have a: "\<forall>c \<in> set (takeWhile isspace s). isspace c" by (auto dest: set_takeWhileD)
  have e: "strip s \<noteq> [] \<longrightarrow> \<not> isspace (hd (strip s)) \<and> \<not> isspace (last (strip s))"
  proof
    assume n: "strip s \<noteq> []"
    then have "?l \<noteq> []" using b by auto
    then have h: "\<not> isspace (hd ?l)" unfolding lstrip_def by (metis hd_dropWhile)
    from rstrip_hd [OF \<open>?l \<noteq> []\<close> h] have "hd (strip s) = hd ?l" by (simp add: strip_def)
    with h n show "\<not> isspace (hd (strip s)) \<and> \<not> isspace (last (strip s))"
      using rstrip_last [of ?l] by (simp add: strip_def)
  qed
  have "s = takeWhile isspace s @ strip s @ b" using s b(1) by simp
  with a b(2) e show ?thesis unfolding is_trim_of_def by blast
qed



subsection \<open>The phone number format\<close>

lemma phone_pattern_unfold:
  "phone_pattern = [Caret, Lit CHR ''+'', Lit CHR ''7'', Lit CHR '' '', Lit CHR ''('', Digit, Digit, Digit,
     Lit CHR '')'', Lit CHR '' '', Digit, Digit, Digit, Lit CHR ''-'', Digit, Digit, Lit CHR ''-'',
     Digit, Digit, Dollar]"
  by (simp add: phone_pattern_def numeral_eq_Suc)

lemma phone_format_length: "phone_format s \<Longrightarrow> length s = 18"
  by (auto simp: phone_format_def)

lemma length_Suc_conv3: "length a = 3 \<longleftrightarrow> (\<exists>x y z. a = [x, y, z])"
  by (auto simp: numeral_eq_Suc length_Suc_conv)

lemma length_Suc_conv2: "length a = 2 \<longleftrightarrow> (\<exists>x y. a = [x, y])"
  by (auto simp: numeral_eq_Suc length_Suc_conv)

lemma phone_format_iff:
  "phone_format s \<longleftrightarrow>
     (\<exists>d1 d2 d3 d4 d5 d6 d7 d8 d9 d10.
        s = [CHR ''+'', CHR ''7'', CHR '' '', CHR ''('', d1, d2, d3, CHR '')'', CHR '' '', d4, d5, d6,
             CHR ''-'', d7, d8, CHR ''-'', d9, d10]
        \<and> isdigit d1 \<and> isdigit d2 \<and> isdigit d3 \<and> isdigit d4 \<and> isdigit d5 \<and> isdigit d6
        \<and> isdigit d7 \<and> isdigit d8 \<and> isdigit d9 \<and> isdigit d10)"
proof
  assume "phone_format s"
  then show "\<exists>d1 d2 d3 d4 d5 d6 d7 d8 d9 d10.
        s = [CHR ''+'', CHR ''7'', CHR '' '', CHR ''('', d1, d2, d3, CHR '')'', CHR '' '', d4, d5, d6,
             CHR ''-'', d7, d8, CHR ''-'', d9, d10]
        \<and> isdigit d1 \<and> isdigit d2 \<and> isdigit d3 \<and> isdigit d4 \<and> isdigit d5 \<and> isdigit d6
        \<and> isdigit d7 \<and> isdigit d8 \<and> isdigit d9 \<and> isdigit d10"
    unfolding phone_format_def length_Suc_conv3 length_Suc_conv2 by clarsimp
next
  assume "\<exists>d1 d2 d3 d4 d5 d6 d7 d8 d9 d10.
        s = [CHR ''+'', CHR ''7'', CHR '' '', CHR ''('', d1, d2, d3, CHR '')'', CHR '' '', d4, d5, d6,
             CHR ''-'', d7, d8, CHR ''-'', d9, d10]
        \<and> isdigit d1 \<and> isdigit d2 \<and> isdigit d3 \<and> isdigit d4 \<and> isdigit d5 \<and> isdigit d6
        \<and> isdigit d7 \<and> isdigit d8 \<and> isdigit d9 \<and> isdigit d10"
  then obtain d1 d2 d3 d4 d5 d6 d7 d8 d9 d10 where
    s: "s = [CHR ''+'', CHR ''7'', CHR '' '', CHR ''('', d1, d2, d3, CHR '')'', CHR '' '', d4, d5, d6,
             CHR ''-'', d7, d8, CHR ''-'', d9, d10]"
    and d: "isdigit d1" "isdigit d2" "isdigit d3" "isdigit d4" "isdigit d5" "isdigit d6"
      "isdigit d7" "isdigit d8" "isdigit d9" "isdigit d10"
    by blast
  have "s = ''+7 ('' @ [d1, d2, d3] @ '') '' @ [d4, d5, d6] @ ''-'' @ [d7, d8] @ ''-'' @ [d9, d10]"
    using s by simp
  moreover have "list_all isdigit ([d1, d2, d3] @ [d4, d5, d6] @ [d7, d8] @ [d9, d10])"
    using d by simp
  ultimately show "phone_format s"
    unfolding phone_format_def by (metis length_Suc_conv2 length_Suc_conv3)
qed

lemma match_tail:
  "re_match_at [Dollar] n s \<longleftrightarrow> s = [] \<or> s = [nl]"
  by simp

lemma validate_phone_number_iff:
  "validate_phone_number s \<longleftrightarrow> phone_format s \<or> (\<exists>t. s = t @ [nl] \<and> phone_format t)"
  unfolding validate_phone_number_def re_match_def phone_pattern_unfold phone_format_iff
  by (auto split: list.splits)

lemma validate_phone_number_examples:
  "validate_phone_number ''+7 (123) 456-78-90''"
  "\<not> validate_phone_number ''+7(123)4567890''"
  "\<not> validate_phone_number ''+7 (12) 345-67-89''"
  by (simp_all add: validate_phone_number_def re_match_def phone_pattern_unfold isdigit_def nl_def)

text \<open>
  Claim C6. The function accepts the three examples as the claim says, and it never changes
  its argument (it returns a truth value only). It does not hold that it accepts exactly
  the values of the format: \<open>$\<close> also matches before a final newline, so the value
  \<open>+7 (123) 456-78-90\<close> followed by a newline is accepted although it is not of the
  format. By \<open>validate_phone_number_iff\<close> this is the only kind of value accepted
  beyond the format.
\<close>

theorem validate_phone_number_trailing_newline:
  "validate_phone_number (''+7 (123) 456-78-90'' @ [nl])
   \<and> \<not> phone_format (''+7 (123) 456-78-90'' @ [nl])"
proof -
  have "validate_phone_number (''+7 (123) 456-78-90'' @ [nl])"
    by (simp add: validate_phone_number_def re_match_def phone_pattern_unfold isdigit_def nl_def)
  moreover have "\<not> phone_format (''+7 (123) 456-78-90'' @ [nl])"
    using phone_format_length [of "''+7 (123) 456-78-90'' @ [nl]"] by auto
  ultimately show ?thesis by simp
qed

section \<open>Paginator\<close>

lemma py_slice_window:
  assumes "0 \<le> s" "0 \<le> n"
  shows "py_slice xs s (s + n) = take (nat n) (drop (nat s) xs)"
proof (cases "nat s \<ge> length xs")
  case True
  then show ?thesis using assms
    by (simp add: py_slice_def slice_bound_def Let_def)
next
  case False
  have e: "nat (s + n) = nat s + nat n" using assms by (simp add: nat_add_distrib)
  from False have "min (nat s + nat n) (length xs) - nat s = min (nat n) (length xs - nat s)"
    by arith
  then show ?thesis using assms False e
    by (simp add: py_slice_def slice_bound_def Let_def min_def not_less)
qed

lemma page_entries_forward:
  assumes "1 \<le> p" "0 \<le> n"
  shows "page_entries p n pb = take (nat n) (drop (nat ((p - 1) * n)) pb)"
proof -
  have "0 \<le> (p - 1) * n" using assms by simp
  from py_slice_window [OF this assms(2)] show ?thesis
    by (simp add: page_entries_def Let_def)
qed

lemma page_entries_size_zero: "page_entries p 0 pb = []"
  by (simp add: page_entries_def py_slice_def slice_bound_def Let_def)

lemma page_entries_page_zero: "0 \<le> n \<Longrightarrow> page_entries 0 n pb = []"
  by (auto simp: page_entries_def py_slice_def slice_bound_def Let_def)

text \<open>
  Claim C2, as the code has it. For a page number of at least 1 and a page size that is
  not negative, the page is the run of \<open>pageSize\<close> records from offset
  \<open>(pageNumber - 1) * pageSize\<close>, cut at the end of the collection, hence empty when
  the offset is at or beyond the length. The page is also empty for page size 0, and for
  page number 0 with a page size that is not negative. Nothing clamps a negative page
  number or a negative page size: the bounds of the slice then count from the end.
\<close>

theorem page_entries_slice:
  "(1 \<le> p \<and> 0 \<le> n \<longrightarrow> page_entries p n pb = take (nat n) (drop (nat ((p - 1) * n)) pb))
   \<and> (1 \<le> p \<and> 0 \<le> n \<and> int (length pb) \<le> (p - 1) * n \<longrightarrow> page_entries p n pb = [])
   \<and> (n = 0 \<longrightarrow> page_entries p n pb = [])
   \<and> (p = 0 \<and> 0 \<le> n \<longrightarrow> page_entries p n pb = [])"
  using page_entries_forward [of p n pb] page_entries_size_zero [of p pb]
    page_entries_page_zero [of n pb] by auto

theorem page_entries_slice_witness:
  "page_entries 3 2 [1, 2, 3, 4, 5 :: nat] = [5]
   \<and> page_entries 10 2 [1, 2, 3, 4, 5 :: nat] = []
   \<and> page_entries 2 0 [1, 2, 3, 4, 5 :: nat] = []
   \<and> page_entries 0 2 [1, 2, 3, 4, 5 :: nat] = []"
  using page_entries_slice [of 3 2 "[1, 2, 3, 4, 5 :: nat]"]
    page_entries_slice [of 10 2 "[1, 2, 3, 4, 5 :: nat]"]
    page_entries_slice [of 2 0 "[1, 2, 3, 4, 5 :: nat]"]
    page_entries_slice [of 0 2 "[1, 2, 3, 4, 5 :: nat]"]
  by (simp add: numeral_eq_Suc)

text \<open>
  The claim as stated fails: page \<open>-1\<close> of size 2 and page 1 of size \<open>-1\<close> of five
  records are not empty.
\<close>

theorem page_entries_negative_counterexample:
  "page_entries (- 1) 2 [1, 2, 3, 4, 5 :: nat] = [2, 3]
   \<and> page_entries 1 (- 1) [1, 2, 3, 4, 5 :: nat] = [1, 2, 3, 4]"
  by (simp add: page_entries_def py_slice_def slice_bound_def Let_def numeral_eq_Suc)

lemma page_entries_examples:
  "page_entries 1 2 [a, b, c, d, e] = [a, b]"
  "page_entries 3 2 [a, b, c, d, e] = [e]"
  "page_entries 10 2 [a, b, c, d, e] = []"
  by (simp_all add: page_entries_def py_slice_def slice_bound_def Let_def numeral_eq_Suc)

lemma display_page_prints:
  "display_page p n w = (w', r) \<Longrightarrow>
     r = Inr () \<and> printed w' = printed w @ map OutEntry (page_entries p n (phonebook w))
     \<and> phonebook w' = phonebook w \<and> csv_file w' = csv_file w \<and> inputs w' = inputs w"
  by (auto simp: display_page_def)

section \<open>RecordStore\<close>

subsection \<open>Records and the loop of \<open>save_phonebook\<close>\<close>



lemma wrong_field_set:
  "k \<in> set names \<Longrightarrow> list_ex (wrong_field names) (dict_set k v d) = list_ex (wrong_field names) d"
  by (induction k v d rule: dict_set.induct) auto

lemma k_id_fieldnames: "k_id \<in> set fieldnames"
  by (simp add: fieldnames_def)

lemma savable_set_id: "savable (dict_set k_id v d) = savable d"
  by (simp add: savable_def wrong_field_set k_id_fieldnames)

lemma dict_writerow_savable:
  "savable e \<Longrightarrow> dict_writerow fieldnames e = Inr (csv_writerow (row_cells e))"
  by (simp add: savable_def dict_writerow_def dict_to_list_def row_cells_def comp_def
      option.case_distrib [of cell_text] cong: option.case_cong)




lemma rows_text_Cons: "rows_text (e # es) = csv_writerow (row_cells e) @ rows_text es"
  by (simp add: rows_text_def)

lemma save_rows_savable:
  "list_all savable es \<Longrightarrow>
     save_rows idx es = (assign_ids idx es, rows_text (assign_ids idx es), Inr ())"
proof (induction es arbitrary: idx)
  case Nil
  then show ?case by (simp add: rows_text_def)
next
  case (Cons e es)
  then show ?case
    by (simp add: dict_writerow_savable savable_set_id rows_text_Cons Let_def)
qed

lemma save_phonebook_savable:
  "list_all savable (phonebook w) \<Longrightarrow>
     save_phonebook w =
       (w\<lparr>phonebook := assign_ids 1 (phonebook w),
          csv_file := Some (csv_writerow fieldnames @ rows_text (assign_ids 1 (phonebook w)))\<rparr>,
        Inr ())"
  by (simp add: save_phonebook_def save_rows_savable)



subsection \<open>Loading without a file\<close>

text \<open>
  Claim C9. When the backing file does not exist, \<open>load_phonebook\<close> returns the empty
  list, raises nothing and changes nothing.
\<close>

theorem load_phonebook_no_file: "csv_file w = None \<Longrightarrow> load_phonebook w = (w, Inr [])"
  by (simp add: load_phonebook_def)

theorem load_phonebook_no_file_witness:
  "load_phonebook \<lparr>phonebook = [], csv_file = None, inputs = [], printed = []\<rparr>
     = (\<lparr>phonebook = [], csv_file = None, inputs = [], printed = []\<rparr>, Inr [])"
  using load_phonebook_no_file [of "\<lparr>phonebook = [], csv_file = None, inputs = [], printed = []\<rparr>"]
  by simp

subsection \<open>Editing\<close>


lemma edit_body_out_of_range:
  "entry_idx < 1 \<or> int (length (phonebook w)) < entry_idx \<Longrightarrow>
     edit_body g entry_idx w = (print OutBadIndex w, Inr ())"
  by (auto simp: edit_body_def Let_def say_def)

lemma edit_with_out_of_range:
  "entry_idx < 1 \<or> int (length (phonebook w)) < entry_idx \<Longrightarrow>
     edit_with g entry_idx w = (print OutBadIndex w, Inr ())"
  by (simp add: edit_with_def catch_value_error_def edit_body_out_of_range)

text \<open>
  Claim C4. For an index outside \<open>1..len(records)\<close> \<open>edit_entry\<close> reports the wrong
  index (it prints the message; no exception leaves it) and changes nothing else: the
  records, the file and the pending console input are as before, so nothing was saved.
\<close>

theorem edit_entry_out_of_range:
  assumes "entry_idx < 1 \<or> int (length (phonebook w)) < entry_idx"
  shows "\<exists>w'. edit_entry entry_idx w = (w', Inr ())
     \<and> printed w' = printed w @ [OutBadIndex]
     \<and> phonebook w' = phonebook w \<and> csv_file w' = csv_file w \<and> inputs w' = inputs w"
  using edit_with_out_of_range [OF assms, of input_contact_data]
  by (simp add: edit_entry_def print_def)

theorem edit_entry_out_of_range_witness:
  "edit_entry 0 (ex_world [ex_loaded ''1'' ''Ivanov''] [''Petrov''])
     = (print OutBadIndex (ex_world [ex_loaded ''1'' ''Ivanov''] [''Petrov'']), Inr ())
   \<and> edit_entry 2 (ex_world [ex_loaded ''1'' ''Ivanov''] [''Petrov''])
     = (print OutBadIndex (ex_world [ex_loaded ''1'' ''Ivanov''] [''Petrov'']), Inr ())"
  using edit_entry_out_of_range [of 0 "ex_world [ex_loaded ''1'' ''Ivanov''] [''Petrov'']"]
    edit_entry_out_of_range [of 2 "ex_world [ex_loaded ''1'' ''Ivanov''] [''Petrov'']"]
  by (auto simp: ex_world_def print_def)

subsection \<open>Merging, the console, and editing in range\<close>





lemma phone_loop_result:
  "phone_loop xs w = (w1, Inr p) \<Longrightarrow>
     validate_phone_number p \<and> phonebook w1 = phonebook w \<and> csv_file w1 = csv_file w"
  by (induction xs w rule: phone_loop.induct) (auto simp: print_def split: if_splits)

lemma strip_strip_nonempty: "strip s \<noteq> [] \<Longrightarrow> strip (strip s) \<noteq> []"
proof -
  assume n: "strip s \<noteq> []"
  from strip_is_trim [of s] n have "\<not> isspace (hd (strip s))" by (auto simp: is_trim_of_def)
  with n have "\<exists>c \<in> set (strip s). \<not> isspace c" by (metis hd_in_set)
  then show ?thesis by (simp add: strip_Nil_iff)
qed

lemma keeps_storeI:
  "(\<And>w. phonebook (fst (m w)) = phonebook w) \<Longrightarrow> (\<And>w. csv_file (fst (m w)) = csv_file w)
     \<Longrightarrow> keeps_store m"
  by (simp add: keeps_store_def)

lemma keeps_storeD:
  "keeps_store m \<Longrightarrow> m w = (w1, r) \<Longrightarrow> phonebook w1 = phonebook w \<and> csv_file w1 = csv_file w"
  by (auto simp: keeps_store_def dest: spec [of _ w])

lemma keeps_bind:
  assumes "keeps_store m" "\<And>x. keeps_store (f x)"
  shows "keeps_store (bind m f)"
proof (rule keeps_storeI)
  fix w
  obtain w1 r where m: "m w = (w1, r)" by (cases "m w")
  from keeps_storeD [OF assms(1) m] have k: "phonebook w1 = phonebook w" "csv_file w1 = csv_file w"
    by simp_all
  show "phonebook (fst (bind m f w)) = phonebook w"
  proof (cases r)
    case (Inl e)
    with m k show ?thesis by (simp add: bind_def)
  next
    case (Inr x)
    obtain w2 r2 where f: "f x w1 = (w2, r2)" by (cases "f x w1")
    from keeps_storeD [OF assms(2) f] Inr m k f show ?thesis by (simp add: bind_def)
  qed
  show "csv_file (fst (bind m f w)) = csv_file w"
  proof (cases r)
    case (Inl e)
    with m k show ?thesis by (simp add: bind_def)
  next
    case (Inr x)
    obtain w2 r2 where f: "f x w1 = (w2, r2)" by (cases "f x w1")
    from keeps_storeD [OF assms(2) f] Inr m k f show ?thesis by (simp add: bind_def)
  qed
qed

lemma keeps_input: "keeps_store input"
  by (rule keeps_storeI) (simp_all add: input_def split: list.splits)

lemma keeps_lift: "keeps_store (lift r)"
  by (rule keeps_storeI) (simp_all add: lift_def)

lemma keeps_return: "keeps_store (return x)"
  by (rule keeps_storeI) (simp_all add: return_def)

lemma keeps_say: "keeps_store (say x)"
  by (rule keeps_storeI) (simp_all add: say_def print_def)

lemma keeps_phone_loop:
  "phonebook (fst (phone_loop xs w)) = phonebook w \<and> csv_file (fst (phone_loop xs w)) = csv_file w"
  by (induction xs w rule: phone_loop.induct) (auto simp: print_def)

lemma keeps_input_phone: "keeps_store input_phone"
  by (rule keeps_storeI) (simp_all add: input_phone_def keeps_phone_loop)

lemma keeps_input_text: "keeps_store (input_text f)"
  unfolding input_text_def by (intro keeps_bind keeps_input keeps_lift)

lemma keeps_contact_body: "keeps_store contact_body"
  unfolding contact_body_def
  by (intro keeps_bind keeps_input_text keeps_input_phone keeps_return)

lemma keeps_input_contact_data: "keeps_store input_contact_data"
proof (rule keeps_storeI)
  fix w
  obtain w1 r where c: "contact_body w = (w1, r)" by (cases "contact_body w")
  from keeps_storeD [OF keeps_contact_body c]
  have k: "phonebook w1 = phonebook w" "csv_file w1 = csv_file w" by simp_all
  from c k show "phonebook (fst (input_contact_data w)) = phonebook w"
    by (auto simp: input_contact_data_def print_def split: sum.splits exn.splits)
  from c k show "csv_file (fst (input_contact_data w)) = csv_file w"
    by (auto simp: input_contact_data_def print_def split: sum.splits exn.splits)
qed

lemma bind_Inr:
  "bind m f w = (w2, Inr y) \<Longrightarrow> \<exists>w1 x. m w = (w1, Inr x) \<and> f x w1 = (w2, Inr y)"
  by (auto simp: bind_def split: prod.splits sum.splits)

lemma input_text_Inr:
  "input_text f w = (w1, Inr v) \<Longrightarrow> is_text (Some (PStr v))"
  by (auto simp: input_text_def bind_def input_def lift_def validate_string_input_def
      strip_strip_nonempty split: list.splits if_splits)

lemma input_phone_Inr:
  "input_phone w = (w1, Inr p) \<Longrightarrow> validate_phone_number p"
  using phone_loop_result by (auto simp: input_phone_def)

text \<open>What the console can deliver: nothing, or the six fields, each checked.\<close>

lemma contact_body_Inr:
  assumes "contact_body w = (w1, Inr cd)"
  shows "\<exists>a b c d p q. cd = [Bind k_last_name (PStr a), Bind k_first_name (PStr b),
             Bind k_patronymic (PStr c), Bind k_organization (PStr d),
             Bind k_work_phone (PStr p), Bind k_personal_phone (PStr q)]
           \<and> is_text (Some (PStr a)) \<and> is_text (Some (PStr b)) \<and> is_text (Some (PStr c))
           \<and> is_text (Some (PStr d)) \<and> validate_phone_number p \<and> validate_phone_number q"
proof -
  from assms obtain wa a where a: "input_text k_last_name w = (wa, Inr a)"
    and r1: "bind (input_text k_first_name) (\<lambda>first_name.
     bind (input_text k_patronymic) (\<lambda>patronymic.
     bind (input_text k_organization) (\<lambda>organization.
     bind input_phone (\<lambda>work_phone.
     bind input_phone (\<lambda>personal_phone.
     return [Bind k_last_name (PStr a), Bind k_first_name (PStr first_name),
             Bind k_patronymic (PStr patronymic), Bind k_organization (PStr organization),
             Bind k_work_phone (PStr work_phone), Bind k_personal_phone (PStr personal_phone)]))))) wa
       = (w1, Inr cd)"
    unfolding contact_body_def by (blast dest: bind_Inr)
  from r1 obtain wb b where b: "input_text k_first_name wa = (wb, Inr b)"
    and r2: "bind (input_text k_patronymic) (\<lambda>patronymic.
     bind (input_text k_organization) (\<lambda>organization.
     bind input_phone (\<lambda>work_phone.
     bind input_phone (\<lambda>personal_phone.
     return [Bind k_last_name (PStr a), Bind k_first_name (PStr b),
             Bind k_patronymic (PStr patronymic), Bind k_organization (PStr organization),
             Bind k_work_phone (PStr work_phone), Bind k_personal_phone (PStr personal_phone)])))) wb
       = (w1, Inr cd)"
    by (blast dest: bind_Inr)
  from r2 obtain wc c where c: "input_text k_patronymic wb = (wc, Inr c)"
    and r3: "bind (input_text k_organization) (\<lambda>organization.
     bind input_phone (\<lambda>work_phone.
     bind input_phone (\<lambda>personal_phone.
     return [Bind k_last_name (PStr a), Bind k_first_name (PStr b),
             Bind k_patronymic (PStr c), Bind k_organization (PStr organization),
             Bind k_work_phone (PStr work_phone), Bind k_personal_phone (PStr personal_phone)]))) wc
       = (w1, Inr cd)"
    by (blast dest: bind_Inr)
  from r3 obtain wd d where d: "input_text k_organization wc = (wd, Inr d)"
    and r4: "bind input_phone (\<lambda>work_phone.
     bind input_phone (\<lambda>personal_phone.
     return [Bind k_last_name (PStr a), Bind k_first_name (PStr b),
             Bind k_patronymic (PStr c), Bind k_organization (PStr d),
             Bind k_work_phone (PStr work_phone), Bind k_personal_phone (PStr personal_phone)])) wd
       = (w1, Inr cd)"
    by (blast dest: bind_Inr)
  from r4 obtain wp p where p: "input_phone wd = (wp, Inr p)"
    and r5: "bind input_phone (\<lambda>personal_phone.
     return [Bind k_last_name (PStr a), Bind k_first_name (PStr b),
             Bind k_patronymic (PStr c), Bind k_organization (PStr d),
             Bind k_work_phone (PStr p), Bind k_personal_phone (PStr personal_phone)]) wp
       = (w1, Inr cd)"
    by (blast dest: bind_Inr)
  from r5 obtain wq q where q: "input_phone wp = (wq, Inr q)"
    and r6: "return [Bind k_last_name (PStr a), Bind k_first_name (PStr b),
             Bind k_patronymic (PStr c), Bind k_organization (PStr d),
             Bind k_work_phone (PStr p), Bind k_personal_phone (PStr q)] wq = (w1, Inr cd)"
    by (blast dest: bind_Inr)
  from r6 have "cd = [Bind k_last_name (PStr a), Bind k_first_name (PStr b),
             Bind k_patronymic (PStr c), Bind k_organization (PStr d),
             Bind k_work_phone (PStr p), Bind k_personal_phone (PStr q)]"
    by (simp add: return_def)
  with input_text_Inr [OF a] input_text_Inr [OF b] input_text_Inr [OF c] input_text_Inr [OF d]
    input_phone_Inr [OF p] input_phone_Inr [OF q]
  show ?thesis by blast
qed




lemma validate_phone_number_ex:
  "validate_phone_number ''+7 (123) 456-78-90''" "validate_phone_number ''+7 (987) 654-32-10''"
  by (simp_all add: validate_phone_number_def re_match_def phone_pattern_unfold isdigit_def nl_def)

lemma input_contact_data_answers:
  assumes "inputs w = ex_answers s @ rest" "strip s \<noteq> []"
  shows "input_contact_data w = (w\<lparr>inputs := rest\<rparr>, Inr (ex_contact (strip s)))"
proof -
  have "contact_body w = (w\<lparr>inputs := rest\<rparr>, Inr (ex_contact (strip s)))"
    using assms
    by (simp add: contact_body_def bind_def input_text_def input_def lift_def return_def
        validate_string_input_def input_phone_def validate_phone_number_ex ex_answers_def
        ex_contact_def strip_def rstrip_def lstrip_def isspace_def)
  then show ?thesis by (simp add: input_contact_data_def)
qed

lemma savable_ex_contact: "savable (ex_contact s)"
  by (simp add: savable_def ex_contact_def fieldnames_def text_fields_def)

lemma savable_ex_loaded: "savable (ex_loaded i s)"
  by (simp add: savable_def ex_loaded_def ex_contact_def fieldnames_def text_fields_def)

lemma ex_contact_nonempty: "ex_contact s \<noteq> []"
  by (simp add: ex_contact_def)








subsection \<open>Adding\<close>



lemma add_record_savable:
  assumes "list_all savable (phonebook w)" "savable cd"
  shows "add_record cd w =
     (w\<lparr>phonebook := assign_ids 1 (phonebook w @ [cd]),
        csv_file := Some (csv_writerow fieldnames @ rows_text (assign_ids 1 (phonebook w @ [cd]))),
        printed := printed w @ [OutAdded]\<rparr>, Inr ())"
  using assms by (simp add: add_record_def bind_def save_phonebook_savable say_def print_def)

lemma add_entry_console:
  assumes "input_contact_data w = (w1, Inr cd)" "cd \<noteq> []"
  shows "add_entry w = add_record cd w1" "phonebook w1 = phonebook w" "csv_file w1 = csv_file w"
    "savable cd"
proof -
  show "add_entry w = add_record cd w1" using assms by (simp add: add_entry_def bind_def)
  from keeps_storeD [OF keeps_input_contact_data assms(1)]
  show "phonebook w1 = phonebook w" "csv_file w1 = csv_file w" by simp_all
  from assms have "contact_body w = (w1, Inr cd)"
    by (auto simp: input_contact_data_def split: prod.splits sum.splits exn.splits)
  from contact_body_Inr [OF this] show "savable cd"
    by (auto simp: savable_def fieldnames_def text_fields_def)
qed





section \<open>SearchEngine\<close>

text \<open>
  On a collection whose values are all strings the search does what the specification
  says: a blank text is refused with a message and asked for again
  (\<open>search_entries_blank\<close>), and otherwise the records printed are exactly the hits, in
  the order of the collection (\<open>search_entries_text\<close>).
\<close>

lemma str_in_sublist: "str_in a b \<longleftrightarrow> sublist a b"
proof (induction b)
  case Nil
  show ?case by auto
next
  case (Cons c cs)
  have "a = take (length a) (c # cs) \<longleftrightarrow> prefix a (c # cs)"
    by (metis prefix_def append_take_drop_id append_eq_conv_conj)
  with Cons show ?case by (auto simp: sublist_Cons_right)
qed

lemma any_match_text:
  "list_all text_binding e \<Longrightarrow> any_match t e = Inr (record_hit t e)"
proof (induction e)
  case Nil
  show ?case by (simp add: record_hit_def)
next
  case (Cons b bs)
  from Cons.prems obtain k s where b: "b = Bind k (PStr s)"
    by (cases b rule: text_binding.cases) auto
  from Cons show ?case by (simp add: b record_hit_def str_in_sublist)
qed

lemma search_results_text:
  "list_all (list_all text_binding) pb \<Longrightarrow> search_results t pb = Inr (filter (record_hit t) pb)"
  by (induction pb) (auto simp: any_match_text)

lemma isspace_code: "isspace c \<longleftrightarrow> (of_char c :: nat) \<in> {9, 10, 11, 12, 13, 28, 29, 30, 31, 32}"
proof -
  have e: "(c = d) = ((of_char c :: nat) = of_char d)" for d by simp
  show ?thesis unfolding isspace_def insert_iff empty_iff e by simp
qed

lemma isspace_lower_char: "isspace (lower_char c) = isspace c"
proof (cases "65 \<le> (of_char c :: nat) \<and> (of_char c :: nat) \<le> 90")
  case True
  then have "(of_char (char_of (of_char c + 32 :: nat)) :: nat) = of_char c + 32"
    by (simp add: of_char_of)
  with True show ?thesis by (auto simp: lower_char_def Let_def isspace_code)
next
  case False
  then show ?thesis by (auto simp: lower_char_def Let_def)
qed

lemma strip_lower_Nil: "strip (lower s) = [] \<longleftrightarrow> strip s = []"
  by (simp add: strip_Nil_iff lower_def isspace_lower_char)

lemma search_entries_blank:
  "inputs w = x # xs \<Longrightarrow> strip x = [] \<Longrightarrow>
     search_entries w = search_entries (print OutEmptySearch (w\<lparr>inputs := xs\<rparr>))"
  by (simp add: search_entries_def bind_def strip_lower_Nil Let_def print_def)

lemma search_entries_term:
  "inputs w = x # xs \<Longrightarrow> strip x \<noteq> [] \<Longrightarrow>
     search_entries w
       = bind (lift (search_results (lower x) (phonebook w))) show_results (w\<lparr>inputs := xs\<rparr>)"
  by (simp add: search_entries_def bind_def strip_lower_Nil Let_def lift_def)

lemma search_entries_text:
  "inputs w = x # xs \<Longrightarrow> strip x \<noteq> [] \<Longrightarrow> list_all (list_all text_binding) (phonebook w) \<Longrightarrow>
     search_entries w = show_results (filter (record_hit (lower x)) (phonebook w)) (w\<lparr>inputs := xs\<rparr>)"
  by (simp add: search_entries_term search_results_text bind_def lift_def)

lemma search_results_order: "search_results t pb = Inr rs \<Longrightarrow> subseq rs pb"
proof (induction pb arbitrary: rs)
  case Nil
  then show ?case by simp
next
  case (Cons e es)
  then show ?case by (auto split: sum.splits if_splits)
qed

lemma lower_ivanov: "lower ''Ivanov LLC'' = ''ivanov llc''" "lower ''ivanov'' = ''ivanov''"
  by code_simp+

lemma record_hit_ex_loaded: "record_hit ''ivanov'' (dict_set k_id (PInt 1) (ex_loaded ''1'' ''Sidorov''))"
  by (simp add: record_hit_def ex_loaded_def ex_contact_def lower_ivanov str_in_sublist [symmetric])

text \<open>
  Claim C3 fails on the collections that the program itself builds. \<open>save_phonebook\<close>
  stores the \<open>ID\<close> of every record as an \<open>int\<close>, and \<open>value.lower()\<close> exists for
  strings only. Here a file with one record has been loaded, a second record is added
  (which saves), and \<open>ivanov\<close> is searched for: the first record is a hit by its
  organization \<open>Ivanov LLC\<close>, but the search raises \<open>AttributeError\<close> at its \<open>ID\<close>.
\<close>

theorem search_after_save_raises:
  "snd (search_entries (fst (add_entry
       (ex_world [ex_loaded ''1'' ''Sidorov''] (ex_answers ''Petrov'' @ [''ivanov''])))))
     = Inl AttributeError
   \<and> phonebook (fst (add_entry
       (ex_world [ex_loaded ''1'' ''Sidorov''] (ex_answers ''Petrov'' @ [''ivanov'']))))
     = [dict_set k_id (PInt 1) (ex_loaded ''1'' ''Sidorov''),
        dict_set k_id (PInt 2) (ex_contact ''Petrov'')]
   \<and> record_hit ''ivanov'' (dict_set k_id (PInt 1) (ex_loaded ''1'' ''Sidorov''))"
proof -
  let ?A = "ex_world [ex_loaded ''1'' ''Sidorov''] (ex_answers ''Petrov'' @ [''ivanov''])"
  let ?B = "?A\<lparr>inputs := [''ivanov'']\<rparr>"
  have sp: "strip ''Petrov'' = ''Petrov''" "strip ''ivanov'' \<noteq> []"
    by (simp_all add: strip_def lstrip_def rstrip_def isspace_def)
  have g: "input_contact_data ?A = (?B, Inr (ex_contact ''Petrov''))"
    using input_contact_data_answers [of ?A "''Petrov''" "[''ivanov'']"]
    by (simp add: sp ex_world_def)
  have s: "list_all savable (phonebook ?B)" by (simp add: ex_world_def savable_ex_loaded)
  have a: "add_entry ?A = add_record (ex_contact ''Petrov'') ?B"
    by (rule add_entry_console(1) [OF g ex_contact_nonempty])
  let ?pb = "[dict_set k_id (PInt 1) (ex_loaded ''1'' ''Sidorov''),
        dict_set k_id (PInt 2) (ex_contact ''Petrov'')]"
  have w: "fst (add_entry ?A) = ?B\<lparr>phonebook := ?pb,
        csv_file := Some (csv_writerow fieldnames @ rows_text ?pb), printed := [OutAdded]\<rparr>"
    by (simp add: a add_record_savable [OF s savable_ex_contact]) (simp add: ex_world_def)
  have r: "search_results ''ivanov'' ?pb = Inl AttributeError"
    by (simp add: ex_loaded_def)
  have "snd (search_entries (fst (add_entry ?A))) = Inl AttributeError"
    unfolding w
    by (subst search_entries_term [where x = "''ivanov''" and xs = "[]"])
      (simp_all add: sp lower_ivanov r bind_def lift_def del: search_results.simps)
  with w record_hit_ex_loaded show ?thesis by simp
qed

section \<open>The CSV file\<close>













lemma state_add_char [simp]: "p_state (parse_add_char c p) = p_state p"
  by (simp add: parse_add_char_def)















section \<open>Saving and loading\<close>
























end
